theory Spec2Isabelle
  imports Complex_Main "HOL-Library.List_Lexorder" "HOL-Library.Char_ord"
begin

section \<open>plot\_throughput.py: throughput per scenario, as a chart and a table\<close>

text \<open>
  The script reads a CSV file of benchmark rows, groups the \<open>QPS\<close> column by the
  \<open>scenario\<close> column with pandas, sorts the groups by their mean, hands a bar chart to
  matplotlib and prints a table. The embedding follows the script line by line. The
  calls into pandas and matplotlib are modelled by what they return for the arguments the
  script passes (the defaults included); what matplotlib does with a figure once it has
  it is outside the embedding, so a chart is the data the script passes to \<open>ax.bar\<close> and
  \<open>ax.text\<close>, and saving is the call \<open>plt.savefig(path)\<close> with its argument.

  Conventions:
  \<^item> a Python \<open>str\<close> is a \<open>string\<close>, one \<open>char\<close> per code point (code points up to
    255; the sign \<open>\<plusminus>\<close> of the table is \<open>CHR 0xB1\<close>); strings are compared as Python
    compares them, code point by code point;
  \<^item> a \<open>float64\<close> that holds a number is a \<open>real\<close> (rounding error is not modelled);
    a \<open>float64\<close> that may be NaN is a \<open>real option\<close>, \<open>None\<close> for NaN;
  \<^item> a cell of the \<open>scenario\<close> column that \<open>read_csv\<close> found empty is \<open>None\<close>; a
    cell of the \<open>QPS\<close> column is a number.
\<close>

subsection \<open>Strings\<close>

text \<open>\<open>sub in s\<close> on Python strings.\<close>

fun occurs :: "string \<Rightarrow> string \<Rightarrow> bool" where
  "occurs sub [] = (sub = [])"
| "occurs sub (c # cs) = (take (length sub) (c # cs) = sub \<or> occurs sub cs)"

text \<open>
  \<open>s.replace(old, new)\<close>: every occurrence of \<open>old\<close>, found from the left and not
  overlapping an earlier one, becomes \<open>new\<close>. With an empty \<open>old\<close> Python puts \<open>new\<close>
  before every character and at the end.
\<close>

function replace :: "string \<Rightarrow> string \<Rightarrow> string \<Rightarrow> string" where
  "replace old new s =
     (if old = [] then new @ concat (map (\<lambda>c. c # new) s)
      else if s = [] then []
      else if take (length old) s = old then new @ replace old new (drop (length old) s)
      else hd s # replace old new (tl s))"
  by pat_completeness auto
termination
  by (relation "measure (\<lambda>(old, new, s). length s)") (auto simp: neq_Nil_conv)

declare replace.simps [simp del]

text \<open>\<open>s.ljust(w)\<close> and \<open>s.rjust(w)\<close>: the padding a format width adds.\<close>

definition ljust :: "nat \<Rightarrow> string \<Rightarrow> string" where
  "ljust w s = s @ replicate (w - length s) (CHR '' '')"

definition rjust :: "nat \<Rightarrow> string \<Rightarrow> string" where
  "rjust w s = replicate (w - length s) (CHR '' '') @ s"

text \<open>\<open>str(n)\<close> for a natural number.\<close>

definition digit_char :: "nat \<Rightarrow> char" where
  "digit_char d = ''0123456789'' ! (d mod 10)"

fun str_nat :: "nat \<Rightarrow> string" where
  "str_nat n = (if n < 10 then [digit_char n] else str_nat (n div 10) @ [digit_char (n mod 10)])"

declare str_nat.simps [simp del]

text \<open>The \<open>,\<close> of a format specification: a comma before every group of three digits.\<close>

fun group3 :: "string \<Rightarrow> string" where
  "group3 (a # b # c # d # ds) = a # b # c # CHR '','' # group3 (d # ds)"
| "group3 ds = ds"

definition thousands :: "string \<Rightarrow> string" where
  "thousands ds = rev (group3 (rev ds))"

text \<open>
  Rounding to the nearest integer, a tie to the even one: how Python's \<open>f\<close> format
  rounds the exact value of its argument.
\<close>

definition round_half_even :: "real \<Rightarrow> int" where
  "round_half_even x =
     (let f = \<lfloor>x\<rfloor>; d = x - of_int f
      in if d < 1 / 2 then f else if 1 / 2 < d then f + 1 else if even f then f else f + 1)"

text \<open>
  \<open>format(x, ',.pf')\<close> for a number: the sign, the integer part with commas, and \<open>p\<close>
  decimals (no point when \<open>p = 0\<close>).
\<close>

definition zfill :: "nat \<Rightarrow> string \<Rightarrow> string" where
  "zfill w s = replicate (w - length s) (CHR ''0'') @ s"

definition format_f :: "nat \<Rightarrow> real \<Rightarrow> string" where
  "format_f p x =
     (let m = nat (round_half_even (\<bar>x\<bar> * 10 ^ p))
      in (if x < 0 then ''-'' else '''')
         @ thousands (str_nat (m div 10 ^ p))
         @ (if p = 0 then '''' else ''.'' @ zfill p (str_nat (m mod 10 ^ p))))"

text \<open>
  \<open>f'{v:w,.pf}'\<close> for a float that may be NaN: NaN prints as \<open>nan\<close>; numbers are
  right-aligned in the width.
\<close>

definition format_float :: "nat \<Rightarrow> nat \<Rightarrow> real option \<Rightarrow> string" where
  "format_float w p v = rjust w (case v of None \<Rightarrow> ''nan'' | Some x \<Rightarrow> format_f p x)"

text \<open>\<open>f'{s:20s}'\<close>: strings are left-aligned in the width.\<close>

definition format_s :: "nat \<Rightarrow> string \<Rightarrow> string" where
  "format_s w s = ljust w s"

subsection \<open>The data: rows of the CSV file, rows of the aggregate table\<close>

text \<open>
  A row of the data frame \<open>df\<close>, reduced to the two columns the script reads. A
  \<open>scenario\<close> of \<open>None\<close> is a missing value (NaN) in that column.
\<close>

record csv_row =
  scenario :: "string option"
  QPS :: real

text \<open>
  A row of \<open>scenario_throughput\<close>: the columns \<open>scenario\<close>, \<open>mean\<close>, \<open>std\<close> and
  \<open>count\<close> after \<open>reset_index()\<close>.
\<close>

record agg_row =
  agg_scenario :: string
  mean :: real
  std :: "real option"
  count :: nat

subsection \<open>Line 21: \<open>df.groupby('scenario')['QPS'].agg(['mean', 'std', 'count'])\<close>\<close>

text \<open>
  \<open>groupby\<close> with its defaults (\<open>sort=True\<close>, \<open>dropna=True\<close>) walks the frame once. A row
  whose key is missing joins no group; any other row joins the group of its key, after
  the rows already there. The groups are kept in ascending order of their keys, which is
  the order \<open>groupby\<close> hands them on in.
\<close>

type_synonym groups = "(string \<times> real list) list"

fun add_to_group :: "string \<Rightarrow> real \<Rightarrow> groups \<Rightarrow> groups" where
  "add_to_group k v [] = [(k, [v])]"
| "add_to_group k v ((k', vs) # gs) =
     (if k = k' then (k', vs @ [v]) # gs
      else if k < k' then (k, [v]) # (k', vs) # gs
      else (k', vs) # add_to_group k v gs)"

definition group_step :: "groups \<Rightarrow> csv_row \<Rightarrow> groups" where
  "group_step gs r = (case scenario r of None \<Rightarrow> gs | Some k \<Rightarrow> add_to_group k (QPS r) gs)"

definition groupby_scenario :: "csv_row list \<Rightarrow> groups" where
  "groupby_scenario df = foldl group_step [] df"

text \<open>
  The three aggregations, each over the \<open>QPS\<close> values of one group. \<open>std\<close> is pandas'
  default, \<open>ddof=1\<close>: the sum of squared deviations over \<open>n - 1\<close>, and NaN when that
  denominator is not positive.
\<close>

definition agg_mean :: "real list \<Rightarrow> real" where
  "agg_mean vs = sum_list vs / real (length vs)"

definition agg_std :: "real list \<Rightarrow> real option" where
  "agg_std vs =
     (let n = length vs; ddof = 1
      in if n \<le> ddof then None
         else Some (sqrt (sum_list (map (\<lambda>x. (x - agg_mean vs)\<^sup>2) vs) / real (n - ddof))))"

definition agg_count :: "real list \<Rightarrow> nat" where
  "agg_count vs = length vs"

definition agg :: "string \<times> real list \<Rightarrow> agg_row" where
  "agg g = \<lparr>agg_scenario = fst g, mean = agg_mean (snd g), std = agg_std (snd g),
            count = agg_count (snd g)\<rparr>"

definition scenario_throughput :: "csv_row list \<Rightarrow> agg_row list" where
  "scenario_throughput df = map agg (groupby_scenario df)"

subsection \<open>Line 24: \<open>sort_values('mean', ascending=False)\<close>\<close>

text \<open>
  pandas sorts a single column in descending order by reversing it, sorting the
  reversed column in ascending order and reversing the outcome. The ascending sort is
  numpy's default \<open>quicksort\<close>, which promises no order among equal keys; the model fixes
  one with an insertion sort, and no theorem below that is stated for every input rests
  on that choice.
\<close>

definition sort_values_mean :: "agg_row list \<Rightarrow> agg_row list" where
  "sort_values_mean t = rev (sort_key mean (rev t))"

definition scenario_throughput_sorted :: "csv_row list \<Rightarrow> agg_row list" where
  "scenario_throughput_sorted df = sort_values_mean (scenario_throughput df)"

subsection \<open>Lines 27 to 58: the chart\<close>

text \<open>
  One bar per row of the sorted table: \<open>ax.bar\<close> gets the scenario as the label, the mean
  as the height and the \<open>std\<close> as \<open>yerr\<close> (NaN when the \<open>std\<close> is), and \<open>ax.text\<close> puts
  the mean without decimals and the count on top of it. The axis labels and the title
  are fixed strings; the other styling calls carry no data.
\<close>

record bar =
  bar_x :: string
  bar_height :: real
  bar_yerr :: "real option"
  bar_text :: string

record figure =
  bars :: "bar list"
  xlabel :: string
  ylabel :: string
  title :: string

definition value_label :: "real \<Rightarrow> nat \<Rightarrow> string" where
  "value_label mean_val n = format_float 0 0 (Some mean_val) @ [CHR 0x0A] @ ''(n='' @ str_nat n @ '')''"

definition make_bar :: "agg_row \<Rightarrow> bar" where
  "make_bar a = \<lparr>bar_x = agg_scenario a, bar_height = mean a, bar_yerr = std a,
                 bar_text = value_label (mean a) (count a)\<rparr>"

definition plot :: "agg_row list \<Rightarrow> figure" where
  "plot t = \<lparr>bars = map make_bar t, xlabel = ''Scenario'', ylabel = ''Throughput (QPS)'',
             title = ''Average Throughput by Scenario''\<rparr>"

subsection \<open>Line 64: the name of the image\<close>

definition output_file :: "string \<Rightarrow> string" where
  "output_file csv_file = replace ''.csv'' ''_throughput.png'' csv_file"

subsection \<open>Lines 69 to 74: the table\<close>

text \<open>\<open>print(s)\<close> writes \<open>s\<close> and a newline to standard output.\<close>

definition print :: "string \<Rightarrow> string" where
  "print s = s @ [CHR 0x0A]"

definition banner :: string where
  "banner = replicate 60 (CHR ''='')"

definition report_line :: "agg_row \<Rightarrow> string" where
  "report_line row =
     format_s 20 (agg_scenario row) @ '': '' @ format_float 10 1 (Some (mean row))
     @ [CHR '' '', CHR 0xB1, CHR '' ''] @ format_float 7 1 (std row)
     @ '' QPS (n='' @ str_nat (count row) @ '')''"

definition statistics :: "agg_row list \<Rightarrow> string" where
  "statistics t =
     print ([CHR 0x0A] @ banner)
     @ print ''Throughput Statistics by Scenario''
     @ print banner
     @ concat (map (\<lambda>row. print (report_line row)) t)
     @ print banner"

subsection \<open>The script\<close>

text \<open>
  The file system maps a path to what \<open>read_csv\<close> makes of the file there: a frame, or
  \<open>Bad_csv\<close> for a file that \<open>read_csv\<close> refuses or that lacks one of the two columns,
  where the script dies of the exception. A run is what the script wrote to each stream,
  its calls of \<open>plt.savefig\<close> and \<open>plt.show\<close>, and how it ended: \<open>Exited n\<close> is the exit
  status \<open>n\<close>, \<open>Uncaught\<close> an exception nobody caught (the interpreter's traceback is not
  part of \<open>stderr\<close> here, which holds what the script itself writes).
\<close>

datatype csv_content = Frame "csv_row list" | Bad_csv

type_synonym filesystem = "(string \<times> csv_content) list"

datatype ending = Exited nat | Uncaught

record run =
  stdout :: string
  stderr :: string
  savefig_calls :: "(string \<times> figure) list"
  show_calls :: "figure list"
  ending :: ending

text \<open>Lines 9 to 11: \<open>argv\<close> is \<open>sys.argv\<close>, the script's own name first.\<close>

definition csv_file :: "string list \<Rightarrow> string" where
  "csv_file argv = (if length argv > 1 then argv ! 1 else ''results/results.csv'')"

definition path_exists :: "filesystem \<Rightarrow> string \<Rightarrow> bool" where
  "path_exists fs p = (map_of fs p \<noteq> None)"

definition main :: "string list \<Rightarrow> filesystem \<Rightarrow> run" where
  "main argv fs =
     (let f = csv_file argv
      in if \<not> path_exists fs f
         then \<lparr>stdout = print (''Error: CSV file not found: '' @ f), stderr = [],
               savefig_calls = [], show_calls = [], ending = Exited 1\<rparr>
         else
           (case map_of fs f of
              Some (Frame df) \<Rightarrow>
                (let t = scenario_throughput_sorted df; fig = plot t
                 in \<lparr>stdout = print (''Chart saved to: '' @ output_file f) @ statistics t,
                     stderr = [], savefig_calls = [(output_file f, fig)],
                     show_calls = [fig], ending = Exited 0\<rparr>)
            | _ \<Rightarrow> \<lparr>stdout = [], stderr = [], savefig_calls = [], show_calls = [],
                     ending = Uncaught\<rparr>))"

subsection \<open>The notions the properties are stated in\<close>

text \<open>
  The \<open>QPS\<close> values of the rows of a frame that carry the scenario \<open>s\<close>, in the order of
  the frame: what the statistics of the group \<open>s\<close> are statistics of.
\<close>

definition values_of :: "string \<Rightarrow> csv_row list \<Rightarrow> real list" where
  "values_of s df = map QPS (filter (\<lambda>r. scenario r = Some s) df)"

text \<open>The scenario values present in a frame; a missing value is not one of them.\<close>

definition present :: "csv_row list \<Rightarrow> string set" where
  "present df = {s. Some s \<in> scenario ` set df}"




text \<open>The values of the group with key \<open>s\<close>, none when there is no such group.\<close>

definition look :: "groups \<Rightarrow> string \<Rightarrow> real list" where
  "look gs s = (case map_of gs s of None \<Rightarrow> [] | Some vs \<Rightarrow> vs)"

text \<open>The frame of the specification's example: \<open>[("A",100),("A",120),("B",50)]\<close>.\<close>

definition example_df :: "csv_row list" where
  "example_df = [\<lparr>scenario = Some ''A'', QPS = 100\<rparr>, \<lparr>scenario = Some ''A'', QPS = 120\<rparr>,
                 \<lparr>scenario = Some ''B'', QPS = 50\<rparr>]"


text \<open>A frame of two scenarios with the same mean, \<open>B\<close> met before \<open>A\<close>.\<close>

definition tied_df :: "csv_row list" where
  "tied_df = [\<lparr>scenario = Some ''B'', QPS = 100\<rparr>, \<lparr>scenario = Some ''A'', QPS = 100\<rparr>]"

section \<open>Properties\<close>

subsection \<open>Replacing \<open>.csv\<close>\<close>

lemma replace_Nil: "old \<noteq> [] \<Longrightarrow> replace old new [] = []"
  by (simp add: replace.simps)

lemma replace_miss:
  "old \<noteq> [] \<Longrightarrow> take (length old) (c # cs) \<noteq> old \<Longrightarrow>
   replace old new (c # cs) = c # replace old new cs"
  by (subst replace.simps) simp

lemma replace_absent: "old \<noteq> [] \<Longrightarrow> \<not> occurs old s \<Longrightarrow> replace old new s = s"
  by (induction s) (simp_all add: replace_Nil replace_miss)

lemma length_csv: "length ''.csv'' = 4"
  by simp

lemma csv_hit:
  assumes "take 4 s = ''.csv''"
  shows "replace ''.csv'' new s = new @ replace ''.csv'' new (drop 4 s)"
proof -
  from assms have "s \<noteq> []" by auto
  with assms show ?thesis
    by (subst replace.simps) (simp only: length_csv if_True if_False, simp)
qed

lemma csv_miss:
  assumes "take 4 (c # cs) \<noteq> ''.csv''"
  shows "replace ''.csv'' new (c # cs) = c # replace ''.csv'' new cs"
proof (rule replace_miss)
  show "''.csv'' \<noteq> []" by simp
  show "take (length ''.csv'') (c # cs) \<noteq> ''.csv''"
    unfolding length_csv by (rule assms)
qed

text \<open>
  No occurrence of \<open>.csv\<close> overlaps another: one that starts in the last three
  characters before an occurrence would need a dot in its second, third or fourth place.
\<close>

lemma csv_no_border:
  assumes "take 4 (a @ ''.csv'' @ b) = ''.csv''" "length a < 4"
  shows "a = []"
proof -
  from assms(2) consider "length a = 0" | "length a = 1" | "length a = 2" | "length a = 3"
    by linarith
  then show ?thesis
  proof cases
    case 1 then show ?thesis by simp
  next
    case 2
    then obtain x where "a = [x]" by (cases a) auto
    with assms(1) show ?thesis by simp
  next
    case 3
    then obtain x y where "a = [x, y]" by (cases a; cases "tl a") auto
    with assms(1) show ?thesis by simp
  next
    case 4
    then obtain x y z where "a = [x, y, z]" by (cases a; cases "tl a"; cases "tl (tl a)") auto
    with assms(1) show ?thesis by simp
  qed
qed

lemma replace_csv_append:
  "replace ''.csv'' new (a @ ''.csv'' @ b) = replace ''.csv'' new a @ new @ replace ''.csv'' new b"
proof (induction "length a" arbitrary: a rule: less_induct)
  case less
  show ?case
  proof (cases a)
    case Nil
    have "take 4 (''.csv'' @ b) = ''.csv''" by simp
    from csv_hit [OF this] show ?thesis using Nil by (simp add: replace_Nil)
  next
    case (Cons c a')
    show ?thesis
    proof (cases "take 4 (a @ ''.csv'' @ b) = ''.csv''")
      case True
      have len: "4 \<le> length a"
        using csv_no_border [OF True] Cons by (cases "length a < 4") auto
      then have ta: "take 4 a = ''.csv''" using True by simp
      have "replace ''.csv'' new (a @ ''.csv'' @ b) = new @ replace ''.csv'' new (drop 4 a @ ''.csv'' @ b)"
        using csv_hit [OF True] len by simp
      also have "\<dots> = new @ replace ''.csv'' new (drop 4 a) @ new @ replace ''.csv'' new b"
        using less [of "drop 4 a"] len Cons by simp
      also have "\<dots> = replace ''.csv'' new a @ new @ replace ''.csv'' new b"
        using csv_hit [OF ta] by simp
      finally show ?thesis .
    next
      case False
      have na: "take 4 (c # a') \<noteq> ''.csv''"
      proof
        assume h: "take 4 (c # a') = ''.csv''"
        then have "length (take 4 (c # a')) = 4" by simp
        then have "4 \<le> length a" unfolding Cons by (simp del: take_Suc_Cons)
        with h False Cons show False by simp
      qed
      have "replace ''.csv'' new (a @ ''.csv'' @ b) = c # replace ''.csv'' new (a' @ ''.csv'' @ b)"
        using False csv_miss [of c "a' @ ''.csv'' @ b"] unfolding Cons by simp
      also have "\<dots> = c # replace ''.csv'' new a' @ new @ replace ''.csv'' new b"
        using less [of a'] Cons by simp
      also have "\<dots> = replace ''.csv'' new a @ new @ replace ''.csv'' new b"
        using csv_miss [OF na] Cons by simp
      finally show ?thesis .
    qed
  qed
qed

lemma output_file_absent: "\<not> occurs ''.csv'' p \<Longrightarrow> output_file p = p"
  unfolding output_file_def by (rule replace_absent) simp_all

lemma output_file_append:
  "output_file (a @ ''.csv'' @ b) = output_file a @ ''_throughput.png'' @ output_file b"
  unfolding output_file_def by (rule replace_csv_append)

lemma main_frame:
  assumes "map_of fs (csv_file argv) = Some (Frame df)"
  shows "main argv fs =
     \<lparr>stdout = print (''Chart saved to: '' @ output_file (csv_file argv))
               @ statistics (scenario_throughput_sorted df),
      stderr = [],
      savefig_calls = [(output_file (csv_file argv), plot (scenario_throughput_sorted df))],
      show_calls = [plot (scenario_throughput_sorted df)],
      ending = Exited 0\<rparr>"
  using assms by (simp add: main_def path_exists_def Let_def)

lemma main_missing:
  assumes "map_of fs (csv_file argv) = None"
  shows "main argv fs =
     \<lparr>stdout = print (''Error: CSV file not found: '' @ csv_file argv), stderr = [],
      savefig_calls = [], show_calls = [], ending = Exited 1\<rparr>"
  using assms by (simp add: main_def path_exists_def Let_def)

lemma csv_file_given [simp]: "csv_file [prog, p] = p"
  by (simp add: csv_file_def)

lemma csv_file_default [simp]: "csv_file [prog] = ''results/results.csv''"
  by (simp add: csv_file_def)

subsection \<open>Grouping\<close>

text \<open>
  Adding a row keeps the keys strictly ascending, adds the row's key to them, appends the
  row's value to the group of its key and to no other, and leaves no group empty.
\<close>

lemma keys_add_to_group: "fst ` set (add_to_group k v gs) = insert k (fst ` set gs)"
  by (induction gs) (force split: if_splits)+

lemma sorted_add_to_group:
  "sorted_wrt (<) (map fst gs) \<Longrightarrow> sorted_wrt (<) (map fst (add_to_group k v gs))"
proof (induction gs)
  case Nil
  then show ?case by simp
next
  case (Cons g gs)
  obtain k' vs where g: "g = (k', vs)" by (cases g)
  have "\<forall>x \<in> fst ` set (add_to_group k v gs). k' < x" if "k' < k" "k \<noteq> k'"
    using Cons.prems that unfolding keys_add_to_group g by auto
  with Cons show ?case
    unfolding g by (auto simp: image_iff)
qed

lemma map_of_add_to_group:
  "sorted_wrt (<) (map fst gs) \<Longrightarrow>
   map_of (add_to_group k v gs) =
     (map_of gs)(k \<mapsto> (case map_of gs k of None \<Rightarrow> [v] | Some vs \<Rightarrow> vs @ [v]))"
proof (induction gs)
  case Nil
  then show ?case by simp
next
  case (Cons g gs)
  obtain k' vs where g: "g = (k', vs)" by (cases g)
  show ?case
  proof (cases "k = k'")
    case True
    then show ?thesis unfolding g by auto
  next
    case False
    show ?thesis
    proof (cases "k < k'")
      case True
      then have "k \<notin> fst ` set gs" using Cons.prems unfolding g by auto
      then have "map_of gs k = None" by (simp add: map_of_eq_None_iff)
      with True False show ?thesis unfolding g by (auto simp: fun_upd_twist)
    next
      case nlt: False
      with False Cons show ?thesis unfolding g by (auto simp: fun_upd_twist)
    qed
  qed
qed

lemma total_add_to_group:
  "sum_list (map (\<lambda>g. length (snd g)) (add_to_group k v gs)) =
   Suc (sum_list (map (\<lambda>g. length (snd g)) gs))"
  by (induction gs) auto

lemma nonempty_add_to_group:
  "list_all (\<lambda>g. snd g \<noteq> []) gs \<Longrightarrow> list_all (\<lambda>g. snd g \<noteq> []) (add_to_group k v gs)"
  by (induction gs) auto

text \<open>The walk over the frame, from any groups already made.\<close>

lemma foldl_group_step:
  "sorted_wrt (<) (map fst gs) \<Longrightarrow> list_all (\<lambda>g. snd g \<noteq> []) gs \<Longrightarrow>
   sorted_wrt (<) (map fst (foldl group_step gs df)) \<and>
   list_all (\<lambda>g. snd g \<noteq> []) (foldl group_step gs df) \<and>
   fst ` set (foldl group_step gs df) = fst ` set gs \<union> present df \<and>
   (\<forall>s. look (foldl group_step gs df) s = look gs s @ values_of s df) \<and>
   sum_list (map (\<lambda>g. length (snd g)) (foldl group_step gs df)) =
     sum_list (map (\<lambda>g. length (snd g)) gs) + length (filter (\<lambda>r. scenario r \<noteq> None) df)"
proof (induction df arbitrary: gs)
  case Nil
  then show ?case by (simp add: present_def values_of_def)
next
  case (Cons r df)
  show ?case
  proof (cases "scenario r")
    case None
    then have step: "group_step gs r = gs" by (simp add: group_step_def)
    have "present (r # df) = present df" "\<And>s. values_of s (r # df) = values_of s df"
      using None by (auto simp: present_def values_of_def)
    with Cons.IH [OF Cons.prems] step None show ?thesis by simp
  next
    case (Some k)
    then have step: "group_step gs r = add_to_group k (QPS r) gs" by (simp add: group_step_def)
    have p: "present (r # df) = insert k (present df)"
      using Some by (auto simp: present_def)
    have v: "values_of s (r # df) = (if s = k then QPS r # values_of s df else values_of s df)" for s
      using Some by (auto simp: values_of_def)
    have l: "look (add_to_group k (QPS r) gs) s = (if s = k then look gs s @ [QPS r] else look gs s)" for s
      using map_of_add_to_group [OF Cons.prems(1), of k "QPS r"]
      by (auto simp: look_def split: option.splits)
    from Cons.IH [OF sorted_add_to_group [OF Cons.prems(1), of k "QPS r"]
        nonempty_add_to_group [OF Cons.prems(2), of k "QPS r"]]
    show ?thesis
      using Some by (simp add: step p v l keys_add_to_group total_add_to_group)
  qed
qed



lemma groupby_nonempty: "list_all (\<lambda>g. snd g \<noteq> []) (groupby_scenario df)"
  using foldl_group_step [of "[]" df] by (simp add: groupby_scenario_def)






lemma agg_scenario_agg [simp]: "agg_scenario (agg g) = fst g"
  by (simp add: agg_def)











subsection \<open>The specification's example\<close>





section \<open>The claims\<close>

subsection \<open>C1: the statistics of each group\<close>



subsection \<open>C2: the scenarios of the table, and the rows behind each\<close>





subsection \<open>C3: the order of the table\<close>


lemma set_sort_values_mean [simp]: "set (sort_values_mean t) = set t"
  by (simp add: sort_values_mean_def)

lemma length_sort_values_mean [simp]: "length (sort_values_mean t) = length t"
  by (simp add: sort_values_mean_def)



lemma tied_table_other_order:
  "scenario_throughput (rev tied_df) = scenario_throughput tied_df"
  by (simp add: tied_df_def scenario_throughput_def groupby_scenario_def group_step_def)




subsection \<open>C4: the input file is missing\<close>

text \<open>
  Claim C4, as the code has it. The message is written with \<open>print\<close>, which writes to
  standard output; the script writes nothing to standard error.
\<close>

theorem missing_file_message_on_stdout:
  "stderr (main [''plot_throughput.py''] []) = [] \<and>
   stdout (main [''plot_throughput.py''] []) =
     ''Error: CSV file not found: results/results.csv'' @ [CHR 0x0A]"
  by (simp add: main_def path_exists_def print_def)

text \<open>
  Claim C4, amended. For every resolved path that does not exist, the script prints
  \<open>Error: CSV file not found:\<close> and the path on standard output, writes nothing to
  standard error, ends with exit status 1, and never calls \<open>plt.savefig\<close> or
  \<open>plt.show\<close>: no image is produced.
\<close>

theorem missing_file_exits_1:
  assumes "\<not> path_exists fs (csv_file argv)"
  shows "stdout (main argv fs) = ''Error: CSV file not found: '' @ csv_file argv @ [CHR 0x0A] \<and>
         stderr (main argv fs) = [] \<and>
         ending (main argv fs) = Exited 1 \<and>
         savefig_calls (main argv fs) = [] \<and> show_calls (main argv fs) = []"
proof -
  from assms have "map_of fs (csv_file argv) = None" by (simp add: path_exists_def)
  from main_missing [OF this] show ?thesis by (simp add: print_def)
qed

theorem missing_file_exits_1_witness:
  "stdout (main [''plot_throughput.py'', ''nowhere.csv''] [(''results/results.csv'', Frame example_df)])
     = ''Error: CSV file not found: nowhere.csv'' @ [CHR 0x0A] \<and>
   ending (main [''plot_throughput.py'', ''nowhere.csv''] [(''results/results.csv'', Frame example_df)])
     = Exited 1 \<and>
   savefig_calls (main [''plot_throughput.py'', ''nowhere.csv''] [(''results/results.csv'', Frame example_df)])
     = []"
  using missing_file_exits_1 [of "[(''results/results.csv'', Frame example_df)]"
      "[''plot_throughput.py'', ''nowhere.csv'']"]
  by (simp add: path_exists_def)

subsection \<open>C5: the image's name when the path ends in its only \<open>.csv\<close>\<close>

text \<open>
  Claim C5, as the code has it. The image's name is \<open>csv_file.replace('.csv',
  '_throughput.png')\<close>, which is not a replacement of the suffix: for the path
  \<open>runs.csv/day1.csv\<close> the claim's name is \<open>runs.csv/day1_throughput.png\<close>, a sibling
  of the input, and the script's name is \<open>runs_throughput.png/day1_throughput.png\<close>, in
  another directory.
\<close>

theorem output_file_not_suffix_swap:
  "output_file ''runs.csv/day1.csv'' \<noteq> ''runs.csv/day1_throughput.png''"
  by (simp add: output_file_def replace.simps)

text \<open>
  Claim C5, amended. For every input path that ends in \<open>.csv\<close> and holds no other
  occurrence of \<open>.csv\<close>, the name of the image is the path with that suffix replaced by
  \<open>_throughput.png\<close>, and that name is the one the script passes to \<open>plt.savefig\<close>.
\<close>

theorem output_file_swaps_single_suffix:
  assumes "\<not> occurs ''.csv'' stem"
  shows "output_file (stem @ ''.csv'') = stem @ ''_throughput.png'' \<and>
         (map_of fs (stem @ ''.csv'') = Some (Frame df) \<longrightarrow>
            map fst (savefig_calls (main [prog, stem @ ''.csv''] fs)) = [stem @ ''_throughput.png''])"
proof -
  have "output_file (stem @ ''.csv'' @ []) = output_file stem @ ''_throughput.png'' @ output_file []"
    by (rule output_file_append)
  then have out: "output_file (stem @ ''.csv'') = stem @ ''_throughput.png''"
    using assms by (simp add: output_file_absent)
  show ?thesis
  proof (intro conjI impI)
    show "output_file (stem @ ''.csv'') = stem @ ''_throughput.png''" by (rule out)
    assume "map_of fs (stem @ ''.csv'') = Some (Frame df)"
    then have "map_of fs (csv_file [prog, stem @ ''.csv'']) = Some (Frame df)" by simp
    from main_frame [OF this]
    show "map fst (savefig_calls (main [prog, stem @ ''.csv''] fs)) = [stem @ ''_throughput.png'']"
      using out by simp
  qed
qed

theorem output_file_swaps_single_suffix_witness:
  "output_file ''results/results.csv'' = ''results/results_throughput.png'' \<and>
   map fst (savefig_calls (main [''plot_throughput.py'', ''results/results.csv'']
      [(''results/results.csv'', Frame example_df)])) = [''results/results_throughput.png'']"
  using output_file_swaps_single_suffix
    [of "''results/results''" "[(''results/results.csv'', Frame example_df)]"
        example_df "''plot_throughput.py''"]
  by simp

subsection \<open>C6: the lines of the table\<close>






lemma length_str_nat_pos: "0 < length (str_nat n)"
  by (subst str_nat.simps) simp








subsection \<open>C7: a group of one record\<close>


lemma sort_values_mean_single [simp]: "sort_values_mean [a] = [a]"
  by (simp add: sort_values_mean_def)




subsection \<open>C8: a file with a header and no rows\<close>



subsection \<open>C9: rows without a scenario\<close>




subsection \<open>C10: what \<open>replace\<close> does to other paths\<close>



end
